theory Spec2Isabelle
  imports Main
begin

section \<open>JavaScript values and objects\<close>

text \<open>
  The values that cross the library's interfaces: JSON data of requests and responses,
  caller-supplied functions (the deprecated callbacks, named by an identifier), and the
  instances the library hands back. An object is its list of own enumerable properties in
  insertion order.
\<close>

datatype jsval =
    Undefined
  | Null
  | Bool bool
  | Num int
  | Str string
  | Arr "jsval list"
  | Obj "(string \<times> jsval) list"
  | Fn string
  | Inst string "(string \<times> jsval) list"
  | ListOf "jsval list" jsval jsval
  | ApiError jsval

type_synonym obj = "(string \<times> jsval) list"

text \<open>\<open>o[k]\<close>: the first entry for the key; \<open>None\<close> is JavaScript's missing property.\<close>

definition get_field :: "obj \<Rightarrow> string \<Rightarrow> jsval option" where
  "get_field ob k = map_of ob k"

text \<open>\<open>o[k] = v\<close>: an existing property keeps its position, a new one is appended.\<close>

primrec set_field :: "string \<Rightarrow> jsval \<Rightarrow> obj \<Rightarrow> obj" where
  "set_field k v [] = [(k, v)]"
| "set_field k v (p # ps) = (if fst p = k then (k, v) # ps else p # set_field k v ps)"

definition set_fields :: "obj \<Rightarrow> obj \<Rightarrow> obj" where
  "set_fields ps target = fold (\<lambda>(k, v). set_field k v) ps target"

text \<open>
  \<open>Object.assign(target, source)\<close> with \<open>source\<close> an object or \<open>undefined\<close> (the type
  \<open>Partial<I> | undefined\<close> of the model constructors): every own property of the source is
  assigned to the target in the source's order; \<open>undefined\<close> copies nothing. Assigning to
  \<open>__proto__\<close> goes to the setter of the prototype and leaves no property on the target.
\<close>

definition Object_assign :: "obj \<Rightarrow> obj option \<Rightarrow> obj" where
  "Object_assign target source =
     (case source of
        None \<Rightarrow> target
      | Some ps \<Rightarrow> set_fields (filter (\<lambda>(k, v). k \<noteq> ''__proto__'') ps) target)"

text \<open>
  An object as the typed interfaces of the library describe it: no two properties of one
  name, and none named \<open>__proto__\<close>.
\<close>

definition wf_obj :: "obj \<Rightarrow> bool" where
  "wf_obj ob = (distinct (map fst ob) \<and> ''__proto__'' \<notin> fst ` set ob)"


section \<open>The Capture model\<close>

definition Capture_resourcePrefix :: string where
  "Capture_resourcePrefix = ''cpt_''"

text \<open>
  The field initialisers of class \<open>Capture\<close>, in declaration order. They run when
  \<open>super()\<close> has returned and before the rest of the constructor body.
\<close>

definition Capture_links :: obj where
  "Capture_links = [(''self'', Null), (''payment'', Null), (''documentation'', Null)]"

definition Capture_defaults :: obj where
  "Capture_defaults =
     [(''resource'', Str ''capture''),
      (''id'', Null),
      (''mode'', Null),
      (''amount'', Null),
      (''settlementAmount'', Null),
      (''paymentId'', Null),
      (''createdAt'', Null),
      (''_links'', Obj Capture_links),
      (''shipmentId'', Null),
      (''settlementId'', Null)]"

text \<open>
  \<open>new Capture(props)\<close>. The base class \<open>Model\<close> is not among the sources: \<open>own\<close> stands
  for the own properties that \<open>super()\<close>, called without arguments, leaves on the instance.
\<close>

definition Capture_new :: "obj \<Rightarrow> obj option \<Rightarrow> obj" where
  "Capture_new own props = Object_assign (set_fields Capture_defaults own) props"


section \<open>Calls, callbacks and promises\<close>

text \<open>
  What a caller can observe of one call besides the returned promise: the invocations of
  the functions it supplied, and the requests handed to the HTTP transport, in order.
\<close>

record request =
  req_method :: string
  req_url :: string
  req_params :: jsval
  req_data :: jsval

datatype event =
    Called string "jsval list"
  | Sent request

text \<open>A synchronous call returns or throws; a promise resolves or rejects.\<close>

datatype completion = Return jsval | Throw jsval

datatype settled = Resolved jsval | Rejected jsval

text \<open>
  The functions supplied by the caller are named; \<open>callee f args\<close> is what \<open>f\<close> returns
  when it is called with \<open>args\<close>. Callbacks are taken to return normally.
\<close>

type_synonym callee = "string \<Rightarrow> jsval list \<Rightarrow> jsval"

text \<open>\<open>typeof v === 'function'\<close>\<close>

definition is_function :: "jsval \<Rightarrow> bool" where
  "is_function v = (case v of Fn f \<Rightarrow> True | _ \<Rightarrow> False)"



text \<open>
  Every method of a resource class ends in \<open>return super.m(...)\<close>: the promise of the
  method is the promise of that call. A method therefore either settles by itself or hands
  over to one method of the base class \<open>Resource\<close>, with the arguments written here.
\<close>

datatype supercall =
    SuperCreate jsval jsval
  | SuperGet string jsval jsval
  | SuperList jsval jsval
  | SuperUpdate string jsval jsval
  | SuperDelete string jsval jsval

datatype tail = Settle settled | Super supercall

text \<open>The argument in the \<open>params\<close> (for update: \<open>data\<close>) position, and in the \<open>cb\<close> position.\<close>

fun super_params :: "supercall \<Rightarrow> jsval" where
  "super_params (SuperCreate params cb) = params"
| "super_params (SuperGet i params cb) = params"
| "super_params (SuperList params cb) = params"
| "super_params (SuperUpdate i data cb) = data"
| "super_params (SuperDelete i params cb) = params"

fun super_cb :: "supercall \<Rightarrow> jsval" where
  "super_cb (SuperCreate params cb) = cb"
| "super_cb (SuperGet i params cb) = cb"
| "super_cb (SuperList params cb) = cb"
| "super_cb (SuperUpdate i data cb) = cb"
| "super_cb (SuperDelete i params cb) = cb"

text \<open>
  Inside an \<open>async\<close> method: a statement that throws rejects the returned promise, one
  that returns lets the body go on. The events of both parts are kept in order.
\<close>

definition and_then ::
  "completion \<times> event list \<Rightarrow> (jsval \<Rightarrow> tail \<times> event list) \<Rightarrow> tail \<times> event list" where
  "and_then m k =
     (case m of
        (Throw e, evs) \<Rightarrow> (Settle (Rejected e), evs)
      | (Return r, evs) \<Rightarrow> (case k r of (t, evs') \<Rightarrow> (t, evs @ evs')))"

text \<open>
  Running a method against an implementation \<open>base\<close> of the base class: the events of
  the method come first, those of the base call after them.
\<close>

definition run ::
  "(supercall \<Rightarrow> settled \<times> event list) \<Rightarrow> tail \<times> event list \<Rightarrow> settled \<times> event list" where
  "run base m =
     (case m of
        (Settle s, evs) \<Rightarrow> (s, evs)
      | (Super c, evs) \<Rightarrow> (case base c of (s, evs') \<Rightarrow> (s, evs @ evs')))"

definition sent :: "event list \<Rightarrow> request list" where
  "sent evs = concat (map (\<lambda>ev. case ev of Sent r \<Rightarrow> [r] | Called f args \<Rightarrow> []) evs)"

definition called :: "event list \<Rightarrow> (string \<times> jsval list) list" where
  "called evs = concat (map (\<lambda>ev. case ev of Called f args \<Rightarrow> [(f, args)] | Sent r \<Rightarrow> []) evs)"


section \<open>Error normalisation\<close>

text \<open>
  Modelled from the spec: \<open>Resource.errorHandler\<close> and the error class \<open>ApiError\<close>, which
  are not among the sources. The handler is the single entry point that turns a failure
  into the typed error (\<open>ApiError\<close> of the failure's payload); it hands the error to the
  completion callback when one is supplied and raises it otherwise. The source calls it
  nested, \<open>errorHandler(errorHandler(x, cb))\<close>, so with a callback it returns a value: the
  model takes that to be what the callback returned.
\<close>

definition errorHandler :: "callee \<Rightarrow> jsval \<Rightarrow> jsval \<Rightarrow> completion \<times> event list" where
  "errorHandler callee response cb =
     (case cb of
        Fn f \<Rightarrow> (Return (callee f [ApiError response]), [Called f [ApiError response]])
      | _ \<Rightarrow> (Throw (ApiError response), []))"

text \<open>
  Modelled from the spec: the message of the typed error is the \<open>detail\<close> field of the
  failure's payload when it has one, else a generic description (whose wording the spec
  leaves open: \<open>generic\<close>).
\<close>

definition getMessage :: "string \<Rightarrow> jsval \<Rightarrow> string" where
  "getMessage generic e =
     (case e of
        ApiError (Obj fs) \<Rightarrow>
          (case get_field fs ''detail'' of Some (Str x) \<Rightarrow> x | _ \<Rightarrow> generic)
      | _ \<Rightarrow> generic)"



section \<open>The Orders resource\<close>

text \<open>lodash \<open>startsWith(string, target)\<close>: \<open>string.slice(0, target.length) == target\<close>.\<close>

definition startsWith :: "string \<Rightarrow> string \<Rightarrow> bool" where
  "startsWith s target = (take (length target) s = target)"

text \<open>The literal \<open>{ error: { message: 'The order id is invalid' } }\<close>.\<close>

definition invalid_id :: jsval where
  "invalid_id = Obj [(''error'', Obj [(''message'', Str ''The order id is invalid'')])]"


definition Orders_get ::
  "callee \<Rightarrow> string \<Rightarrow> string \<Rightarrow> jsval \<Rightarrow> jsval \<Rightarrow> tail \<times> event list" where
  "Orders_get callee prefix i params cb =
     (let rest =
        (if is_function params \<or> is_function cb then
           (Super (SuperGet i
              (if is_function params then Null else params)
              (if is_function params then params else cb)), [])
         else (Super (SuperGet i params cb), []))
      in
        if \<not> startsWith i prefix then
          and_then (errorHandler callee invalid_id cb) (\<lambda>r.
            and_then (errorHandler callee r Undefined) (\<lambda>_. rest))
        else rest)"

definition Orders_list :: "jsval \<Rightarrow> jsval \<Rightarrow> tail \<times> event list" where
  "Orders_list params cb =
     (if is_function params \<or> is_function cb then
        (Super (SuperList
           (if is_function params then Null else params)
           (if is_function params then params else cb)), [])
      else (Super (SuperList params cb), []))"

definition Orders_update ::
  "callee \<Rightarrow> string \<Rightarrow> string \<Rightarrow> jsval \<Rightarrow> jsval \<Rightarrow> tail \<times> event list" where
  "Orders_update callee prefix i data cb =
     (let rest = (Super (SuperUpdate i data cb), [])
      in
        if \<not> startsWith i prefix then
          and_then (errorHandler callee invalid_id cb) (\<lambda>r.
            and_then (errorHandler callee r Undefined) (\<lambda>_. rest))
        else rest)"

definition Orders_cancel ::
  "callee \<Rightarrow> string \<Rightarrow> string \<Rightarrow> jsval \<Rightarrow> jsval \<Rightarrow> tail \<times> event list" where
  "Orders_cancel callee prefix i params cb =
     (let rest =
        (if is_function params \<or> is_function cb then
           (Super (SuperDelete i
              (if is_function params then Null else params)
              (if is_function params then params else cb)), [])
         else (Super (SuperDelete i params cb), []))
      in
        if \<not> startsWith i prefix then
          and_then (errorHandler callee invalid_id cb) (\<lambda>r.
            and_then (errorHandler callee r Undefined) (\<lambda>_. rest))
        else rest)"

text \<open>The aliases \<open>delete = this.cancel\<close> and \<open>all = this.list\<close>.\<close>

definition Orders_delete ::
  "callee \<Rightarrow> string \<Rightarrow> string \<Rightarrow> jsval \<Rightarrow> jsval \<Rightarrow> tail \<times> event list" where
  "Orders_delete = Orders_cancel"

definition Orders_all :: "jsval \<Rightarrow> jsval \<Rightarrow> tail \<times> event list" where
  "Orders_all = Orders_list"


section \<open>The base class Resource\<close>

text \<open>
  The HTTP transport answers a request with a status code and a parsed JSON body, or not
  at all (connection failure, timeout). It is a parameter of everything below.
\<close>

datatype response = Reply nat jsval | NoReply

record config =
  resource :: string
  model_name :: string
  model_new :: "obj option \<Rightarrow> obj"
  transport :: "request \<Rightarrow> response"
  callbacks :: callee

text \<open>
  Modelled from the spec: the generic methods of \<open>Resource\<close> (\<open>resource.ts\<close>) and the
  \<open>List\<close> container, which are not among the sources. A single-entity response maps
  directly to a Model, built by the entity's constructor from the body. A collection
  response holds an embedded array under the resource-named key, a \<open>_links\<close> object and a
  \<open>count\<close>; the List wraps the models in response order, with those links and that count.
  A body of another shape is a malformed response.
\<close>

definition new_model :: "config \<Rightarrow> jsval \<Rightarrow> jsval option" where
  "new_model cfg body =
     (case body of
        Obj fs \<Rightarrow> Some (Inst (model_name cfg) (model_new cfg (Some fs)))
      | _ \<Rightarrow> None)"

definition field_or_undefined :: "obj \<Rightarrow> string \<Rightarrow> jsval" where
  "field_or_undefined ob k = (case get_field ob k of Some v \<Rightarrow> v | None \<Rightarrow> Undefined)"

definition embedded :: "config \<Rightarrow> jsval \<Rightarrow> jsval list option" where
  "embedded cfg body =
     (case body of
        Obj fs \<Rightarrow>
          (case get_field fs ''_embedded'' of
             Some (Obj em) \<Rightarrow>
               (case get_field em (resource cfg) of Some (Arr xs) \<Rightarrow> Some xs | _ \<Rightarrow> None)
           | _ \<Rightarrow> None)
      | _ \<Rightarrow> None)"

definition new_list :: "config \<Rightarrow> jsval \<Rightarrow> jsval option" where
  "new_list cfg body =
     (case (body, embedded cfg body) of
        (Obj fs, Some xs) \<Rightarrow>
          (case those (map (new_model cfg) xs) of
             Some ms \<Rightarrow>
               Some (ListOf ms (field_or_undefined fs ''_links'') (field_or_undefined fs ''count''))
           | None \<Rightarrow> None)
      | _ \<Rightarrow> None)"

text \<open>The items of a List, and its navigation link of a given name when it has one.\<close>

definition list_items :: "jsval \<Rightarrow> jsval list" where
  "list_items v = (case v of ListOf ms links n \<Rightarrow> ms | _ \<Rightarrow> [])"

definition link_of :: "jsval \<Rightarrow> string \<Rightarrow> jsval option" where
  "link_of links name =
     (case links of
        Obj ls \<Rightarrow>
          (case get_field ls name of
             Some Null \<Rightarrow> None
           | Some Undefined \<Rightarrow> None
           | Some v \<Rightarrow> Some v
           | None \<Rightarrow> None)
      | _ \<Rightarrow> None)"

definition list_link :: "jsval \<Rightarrow> string \<Rightarrow> jsval option" where
  "list_link v name = (case v of ListOf ms links n \<Rightarrow> link_of links name | _ \<Rightarrow> None)"

text \<open>
  Modelled from the spec: the two ways an operation ends. The completion callback, when
  one is supplied, receives \<open>(error, result)\<close> with the semantics of the returned promise,
  which settles as it does without a callback (the callback is an adapter over the
  result-based contract).
\<close>

definition fulfil :: "jsval \<Rightarrow> jsval \<Rightarrow> settled \<times> event list" where
  "fulfil v cb = (Resolved v, case cb of Fn f \<Rightarrow> [Called f [Null, v]] | _ \<Rightarrow> [])"

definition reject_with :: "callee \<Rightarrow> jsval \<Rightarrow> jsval \<Rightarrow> settled \<times> event list" where
  "reject_with callee payload cb =
     (Rejected (ApiError payload), snd (errorHandler callee payload cb))"

text \<open>
  Modelled from the spec: one operation is one network round trip. A 2xx answer is
  decoded into the result; a non-2xx answer fails with the typed error of its body; no
  answer, or a 2xx answer with a malformed body, fails with the typed error that has
  nothing but the generic message.
\<close>

definition perform ::
  "config \<Rightarrow> request \<Rightarrow> (jsval \<Rightarrow> jsval option) \<Rightarrow> jsval \<Rightarrow> settled \<times> event list" where
  "perform cfg req decode cb =
     (case
        (case transport cfg req of
           Reply status body \<Rightarrow>
             if 200 \<le> status \<and> status < 300 then
               (case decode body of
                  Some v \<Rightarrow> fulfil v cb
                | None \<Rightarrow> reject_with (callbacks cfg) Undefined cb)
             else reject_with (callbacks cfg) body cb
         | NoReply \<Rightarrow> reject_with (callbacks cfg) Undefined cb)
      of (s, evs) \<Rightarrow> (s, Sent req # evs))"

text \<open>
  Modelled from the spec: the five operations, each against the fixed path of the
  resource (the unit tests answer \<open>GET /methods\<close> and \<open>GET /methods/<id>\<close>): create sends a
  write request with the parameters as body, get and list send a read request with the
  parameters as query, update sends a partial update, delete sends a delete request. All
  but list return one Model; list returns a List.
\<close>

definition resource_url :: "config \<Rightarrow> string" where
  "resource_url cfg = ''/'' @ resource cfg"

fun Resource :: "config \<Rightarrow> supercall \<Rightarrow> settled \<times> event list" where
  "Resource cfg (SuperCreate params cb) =
     perform cfg \<lparr>req_method = ''POST'', req_url = resource_url cfg,
       req_params = Undefined, req_data = params\<rparr> (new_model cfg) cb"
| "Resource cfg (SuperGet i params cb) =
     perform cfg \<lparr>req_method = ''GET'', req_url = resource_url cfg @ ''/'' @ i,
       req_params = params, req_data = Undefined\<rparr> (new_model cfg) cb"
| "Resource cfg (SuperList params cb) =
     perform cfg \<lparr>req_method = ''GET'', req_url = resource_url cfg,
       req_params = params, req_data = Undefined\<rparr> (new_list cfg) cb"
| "Resource cfg (SuperUpdate i data cb) =
     perform cfg \<lparr>req_method = ''PATCH'', req_url = resource_url cfg @ ''/'' @ i,
       req_params = Undefined, req_data = data\<rparr> (new_model cfg) cb"
| "Resource cfg (SuperDelete i params cb) =
     perform cfg \<lparr>req_method = ''DELETE'', req_url = resource_url cfg @ ''/'' @ i,
       req_params = params, req_data = Undefined\<rparr> (new_model cfg) cb"









section \<open>The HTTP client factory\<close>

text \<open>
  Modelled from the spec: \<open>createHttpClient\<close> (\<open>create-http-client.ts\<close>), of which only
  the unit test is among the sources. The base URL is fixed to the API host; the default
  headers are \<open>Authorization\<close>, derived from the configured credential by \<open>authorization\<close>,
  \<open>User-Agent\<close>, \<open>Accept-Encoding\<close> and \<open>Content-Type: application/json\<close>. The derivation
  and the values of the second and third header are not fixed by the spec.
\<close>

record http_client =
  baseURL :: string
  headers :: "(string \<times> string) list"

definition createHttpClient ::
  "(string \<Rightarrow> string) \<Rightarrow> string \<Rightarrow> string \<Rightarrow> string \<Rightarrow> http_client" where
  "createHttpClient authorization userAgent acceptEncoding apiKey =
     \<lparr>baseURL = ''https://api.mollie.com:443/v2/'',
      headers =
        [(''Authorization'', authorization apiKey),
         (''User-Agent'', userAgent),
         (''Accept-Encoding'', acceptEncoding),
         (''Content-Type'', ''application/json'')]\<rparr>"

definition toHaveProperty :: "(string \<times> string) list \<Rightarrow> string \<Rightarrow> bool" where
  "toHaveProperty hs name = (map_of hs name \<noteq> None)"



section \<open>Properties of assignment\<close>

lemma get_set_field:
  "get_field (set_field k v ob) k' = (if k' = k then Some v else get_field ob k')"
  by (induction ob) (auto simp: get_field_def)

lemma keys_set_field: "fst ` set (set_field k v ob) = insert k (fst ` set ob)"
  by (induction ob) auto

lemma keys_set_fields: "fst ` set (set_fields ps ob) = fst ` set ob \<union> fst ` set ps"
proof (induction ps arbitrary: ob)
  case Nil
  then show ?case by (simp add: set_fields_def)
next
  case (Cons p ps)
  have "set_fields (p # ps) ob = set_fields ps (set_field (fst p) (snd p) ob)"
    by (simp add: set_fields_def case_prod_beta)
  with Cons.IH [of "set_field (fst p) (snd p) ob"] show ?case
    by (simp add: keys_set_field Un_commute insert_commute)
qed

lemma get_set_fields_notin:
  "k \<notin> fst ` set ps \<Longrightarrow> get_field (set_fields ps ob) k = get_field ob k"
  unfolding set_fields_def
  by (induction ps arbitrary: ob) (auto simp: get_set_field)

lemma get_set_fields_in:
  "distinct (map fst ps) \<Longrightarrow> (k, v) \<in> set ps \<Longrightarrow> get_field (set_fields ps ob) k = Some v"
  unfolding set_fields_def
proof (induction ps arbitrary: ob)
  case Nil
  then show ?case by simp
next
  case (Cons p ps)
  obtain k0 v0 where p: "p = (k0, v0)" by (cases p)
  show ?case
  proof (cases "(k, v) = p")
    case True
    with Cons.prems p have "k \<notin> fst ` set ps" by auto
    then have "get_field (set_fields ps (set_field k v ob)) k = get_field (set_field k v ob) k"
      by (rule get_set_fields_notin)
    with True p show ?thesis by (simp add: set_fields_def get_set_field)
  next
    case False
    with Cons.prems have "(k, v) \<in> set ps" and "distinct (map fst ps)" by auto
    with Cons.IH show ?thesis by simp
  qed
qed

lemma filter_proto_wf:
  "wf_obj ps \<Longrightarrow> filter (\<lambda>(k, v). k \<noteq> ''__proto__'') ps = ps"
  by (force simp: wf_obj_def filter_id_conv)

lemma wf_Capture_defaults: "distinct (map fst Capture_defaults)"
  by (simp add: Capture_defaults_def)

lemma get_Capture_new_None:
  "get_field (Capture_new own None) k =
     (case get_field Capture_defaults k of Some d \<Rightarrow> Some d | None \<Rightarrow> get_field own k)"
proof (cases "get_field Capture_defaults k")
  case None
  then have "k \<notin> fst ` set Capture_defaults"
    by (simp add: get_field_def map_of_eq_None_iff)
  with None show ?thesis
    by (simp add: Capture_new_def Object_assign_def get_set_fields_notin)
next
  case (Some d)
  then have "(k, d) \<in> set Capture_defaults"
    by (simp add: get_field_def map_of_SomeD)
  with Some show ?thesis
    by (simp add: Capture_new_def Object_assign_def get_set_fields_in [OF wf_Capture_defaults])
qed


section \<open>The Capture model: defaults and merge\<close>

text \<open>
  C9. A Capture built without arguments, or from an empty partial, has \<open>resource\<close> equal to
  \<open>'capture'\<close>, the eight entity fields \<open>null\<close>, and \<open>_links\<close> with \<open>self\<close>, \<open>payment\<close> and
  \<open>documentation\<close> all \<open>null\<close>; the static prefix is \<open>'cpt_'\<close>. Construction is an unchecked
  merge: whatever key a partial supplies, \<open>resource\<close> and \<open>_links\<close> included, is found on
  the instance with the supplied value.
\<close>

theorem Capture_defaults_unchecked_merge:
  "Capture_resourcePrefix = ''cpt_'' \<and>
   (props = None \<or> props = Some [] \<longrightarrow>
      get_field (Capture_new own props) ''resource'' = Some (Str ''capture'') \<and>
      get_field (Capture_new own props) ''id'' = Some Null \<and>
      get_field (Capture_new own props) ''mode'' = Some Null \<and>
      get_field (Capture_new own props) ''amount'' = Some Null \<and>
      get_field (Capture_new own props) ''settlementAmount'' = Some Null \<and>
      get_field (Capture_new own props) ''paymentId'' = Some Null \<and>
      get_field (Capture_new own props) ''createdAt'' = Some Null \<and>
      get_field (Capture_new own props) ''shipmentId'' = Some Null \<and>
      get_field (Capture_new own props) ''settlementId'' = Some Null \<and>
      get_field (Capture_new own props) ''_links'' =
        Some (Obj [(''self'', Null), (''payment'', Null), (''documentation'', Null)])) \<and>
   (wf_obj partial \<and> (k, v) \<in> set partial \<longrightarrow>
      get_field (Capture_new own (Some partial)) k = Some v)"
proof -
  have same: "Capture_new own (Some []) = Capture_new own None"
    by (simp add: Capture_new_def Object_assign_def set_fields_def)
  have dflt: "get_field Capture_defaults ''resource'' = Some (Str ''capture'')"
    "get_field Capture_defaults ''id'' = Some Null"
    "get_field Capture_defaults ''mode'' = Some Null"
    "get_field Capture_defaults ''amount'' = Some Null"
    "get_field Capture_defaults ''settlementAmount'' = Some Null"
    "get_field Capture_defaults ''paymentId'' = Some Null"
    "get_field Capture_defaults ''createdAt'' = Some Null"
    "get_field Capture_defaults ''shipmentId'' = Some Null"
    "get_field Capture_defaults ''settlementId'' = Some Null"
    "get_field Capture_defaults ''_links'' =
       Some (Obj [(''self'', Null), (''payment'', Null), (''documentation'', Null)])"
    by (simp_all add: Capture_defaults_def Capture_links_def get_field_def)
  have none: "get_field (Capture_new own None) ''resource'' = Some (Str ''capture'') \<and>
      get_field (Capture_new own None) ''id'' = Some Null \<and>
      get_field (Capture_new own None) ''mode'' = Some Null \<and>
      get_field (Capture_new own None) ''amount'' = Some Null \<and>
      get_field (Capture_new own None) ''settlementAmount'' = Some Null \<and>
      get_field (Capture_new own None) ''paymentId'' = Some Null \<and>
      get_field (Capture_new own None) ''createdAt'' = Some Null \<and>
      get_field (Capture_new own None) ''shipmentId'' = Some Null \<and>
      get_field (Capture_new own None) ''settlementId'' = Some Null \<and>
      get_field (Capture_new own None) ''_links'' =
        Some (Obj [(''self'', Null), (''payment'', Null), (''documentation'', Null)])"
    unfolding get_Capture_new_None dflt by simp
  have over: "get_field (Capture_new own (Some partial)) k = Some v"
    if "wf_obj partial" and "(k, v) \<in> set partial"
    using that
    by (simp add: Capture_new_def Object_assign_def filter_proto_wf get_set_fields_in wf_obj_def)
  from none same over show ?thesis
    by (auto simp: Capture_resourcePrefix_def)
qed

theorem Capture_defaults_unchecked_merge_witness:
  "wf_obj [(''resource'', Str ''refund''), (''_links'', Null)] \<and>
   get_field (Capture_new [] None) ''resource'' = Some (Str ''capture'') \<and>
   get_field (Capture_new [] (Some [(''resource'', Str ''refund''), (''_links'', Null)]))
     ''_links'' = Some Null \<and>
   get_field (Capture_new [] (Some [(''resource'', Str ''refund''), (''_links'', Null)]))
     ''resource'' = Some (Str ''refund'')"
  using Capture_defaults_unchecked_merge
    [of None "[]" "[(''resource'', Str ''refund''), (''_links'', Null)]" "''_links''" Null]
    Capture_defaults_unchecked_merge
    [of None "[]" "[(''resource'', Str ''refund''), (''_links'', Null)]" "''resource''"
      "Str ''refund''"]
  by (simp add: wf_obj_def)

text \<open>
  C4. The fields of the Model built from a response body: every key of the body is on the
  Model with the body's value, every other key has what an instance built without
  arguments has (its declared default, for a declared field), and the Model has no key
  besides those of the body, the declared fields and what the base constructor left.
\<close>

theorem Capture_new_merges_over_defaults:
  assumes "wf_obj body"
  shows "((k, v) \<in> set body \<longrightarrow> get_field (Capture_new own (Some body)) k = Some v) \<and>
    (k \<notin> fst ` set body \<longrightarrow>
       get_field (Capture_new own (Some body)) k = get_field (Capture_new own None) k) \<and>
    (k \<notin> fst ` set body \<longrightarrow> (k, d) \<in> set Capture_defaults \<longrightarrow>
       get_field (Capture_new own (Some body)) k = Some d) \<and>
    fst ` set (Capture_new own (Some body)) =
      fst ` set own \<union> fst ` set Capture_defaults \<union> fst ` set body"
proof -
  have present: "get_field (Capture_new own (Some body)) k = Some v" if "(k, v) \<in> set body"
    using assms that
    by (simp add: Capture_new_def Object_assign_def filter_proto_wf get_set_fields_in wf_obj_def)
  have absent: "get_field (Capture_new own (Some body)) k = get_field (Capture_new own None) k"
    if "k \<notin> fst ` set body"
    using assms that
    by (simp add: Capture_new_def Object_assign_def filter_proto_wf get_set_fields_notin)
  have dflt: "get_field (Capture_new own None) k = Some d" if "(k, d) \<in> set Capture_defaults"
    using that
    by (simp add: Capture_new_def Object_assign_def get_set_fields_in [OF wf_Capture_defaults])
  have keys: "fst ` set (Capture_new own (Some body)) =
      fst ` set own \<union> fst ` set Capture_defaults \<union> fst ` set body"
    using assms by (simp add: Capture_new_def Object_assign_def filter_proto_wf keys_set_fields)
  from present absent dflt keys show ?thesis by simp
qed

theorem Capture_new_merges_over_defaults_witness:
  "wf_obj [(''id'', Str ''cpt_4qqhO89gsT''), (''mode'', Str ''live'')] \<and>
   get_field (Capture_new [] (Some [(''id'', Str ''cpt_4qqhO89gsT''), (''mode'', Str ''live'')]))
     ''id'' = Some (Str ''cpt_4qqhO89gsT'')"
  using Capture_new_merges_over_defaults
    [of "[(''id'', Str ''cpt_4qqhO89gsT''), (''mode'', Str ''live'')]" "''id''"
      "Str ''cpt_4qqhO89gsT''" "[]" Null]
  by (simp add: wf_obj_def)


section \<open>The Orders resource: validation and the deprecated calling convention\<close>

lemma run_Super: "run base (Super c, []) = base c"
  by (simp add: run_def split: prod.splits)

lemma run_Settle: "run base (Settle s, evs) = (s, evs)"
  by (simp add: run_def)

lemma errorHandler_no_callback:
  "\<not> is_function cb \<Longrightarrow> errorHandler callee response cb = (Throw (ApiError response), [])"
  by (cases cb) (simp_all add: errorHandler_def is_function_def)

lemma errorHandler_callback:
  "errorHandler callee response (Fn f) =
     (Return (callee f [ApiError response]), [Called f [ApiError response]])"
  by (simp add: errorHandler_def)

text \<open>The check of the identifier, as it opens \<open>get\<close>, \<open>update\<close> and \<open>cancel\<close>.\<close>

lemma invalid_no_callback:
  "\<not> is_function cb \<Longrightarrow>
   and_then (errorHandler callee invalid_id cb) (\<lambda>r.
     and_then (errorHandler callee r Undefined) (\<lambda>_. rest)) =
   (Settle (Rejected (ApiError invalid_id)), [])"
  by (simp add: errorHandler_no_callback and_then_def)

lemma invalid_callback:
  "and_then (errorHandler callee invalid_id (Fn f)) (\<lambda>r.
     and_then (errorHandler callee r Undefined) (\<lambda>_. rest)) =
   (Settle (Rejected (ApiError (callee f [ApiError invalid_id]))),
    [Called f [ApiError invalid_id]])"
  by (simp add: errorHandler_callback errorHandler_def and_then_def)

text \<open>
  C1. For an identifier that does not start with the prefix, \<open>get\<close>, \<open>update\<close> and \<open>cancel\<close>
  fail whatever the base class and the transport do: the promise is rejected with a typed
  error and no request is sent. Without a callback in the \<open>cb\<close> position the rejection is
  the validation error itself; with one, the callback receives the validation error and
  the promise is rejected with the error the outer handler raises.
\<close>

theorem Orders_invalid_id_short_circuits:
  assumes "\<not> startsWith i prefix"
    and "m = Orders_get callee prefix i params cb \<or>
         m = Orders_update callee prefix i params cb \<or>
         m = Orders_cancel callee prefix i params cb"
  shows "(\<exists>x. fst (run base m) = Rejected (ApiError x)) \<and>
    sent (snd (run base m)) = [] \<and>
    (\<not> is_function cb \<longrightarrow> run base m = (Rejected (ApiError invalid_id), [])) \<and>
    (cb = Fn f \<longrightarrow>
       run base m =
         (Rejected (ApiError (callee f [ApiError invalid_id])),
          [Called f [ApiError invalid_id]]))"
proof -
  have m_no: "m = (Settle (Rejected (ApiError invalid_id)), [])" if "\<not> is_function cb"
    using assms that
    by (auto simp: Orders_get_def Orders_update_def Orders_cancel_def Let_def
        invalid_no_callback)
  have m_cb: "m = (Settle (Rejected (ApiError (callee f [ApiError invalid_id]))),
      [Called f [ApiError invalid_id]])" if "cb = Fn f" for f
    using assms that
    by (auto simp: Orders_get_def Orders_update_def Orders_cancel_def Let_def
        invalid_callback)
  show ?thesis
  proof (cases "is_function cb")
    case False
    with m_no show ?thesis
      by (auto simp: run_Settle sent_def is_function_def)
  next
    case True
    then obtain g where g: "cb = Fn g"
      by (cases cb) (simp_all add: is_function_def)
    with m_cb [OF g] show ?thesis
      by (auto simp: run_Settle sent_def is_function_def)
  qed
qed

theorem Orders_invalid_id_short_circuits_witness:
  "\<not> startsWith ''foo'' ''ord_'' \<and>
   run (\<lambda>c. (Resolved Null, [Sent \<lparr>req_method = ''GET'', req_url = ''/orders/foo'',
       req_params = Undefined, req_data = Undefined\<rparr>]))
     (Orders_get (\<lambda>f args. Undefined) ''ord_'' ''foo'' Undefined Undefined) =
   (Rejected (ApiError invalid_id), [])"
  using Orders_invalid_id_short_circuits
    [of "''foo''" "''ord_''" "Orders_get (\<lambda>f args. Undefined) ''ord_'' ''foo'' Undefined Undefined"
      "\<lambda>f args. Undefined" Undefined Undefined
      "\<lambda>c. (Resolved Null, [Sent \<lparr>req_method = ''GET'', req_url = ''/orders/foo'',
         req_params = Undefined, req_data = Undefined\<rparr>])" "''cb''"]
  by (simp add: startsWith_def is_function_def)

text \<open>
  C10. When \<open>get\<close>, \<open>list\<close> or \<open>cancel\<close> is given a function in the \<open>params\<close> position, the
  call of the base class has \<open>null\<close> in that position and the function in the callback
  position; and whatever the arguments, no call of the base class made by these three
  methods has a function in its \<open>params\<close> position.
\<close>

theorem Orders_shift_callback:
  "(is_function params \<longrightarrow> startsWith i prefix \<longrightarrow>
      Orders_get callee prefix i params cb = (Super (SuperGet i Null params), [])) \<and>
   (is_function params \<longrightarrow>
      Orders_list params cb = (Super (SuperList Null params), [])) \<and>
   (is_function params \<longrightarrow> startsWith i prefix \<longrightarrow>
      Orders_cancel callee prefix i params cb = (Super (SuperDelete i Null params), [])) \<and>
   (fst (Orders_get callee prefix i params cb) = Super c \<longrightarrow> \<not> is_function (super_params c)) \<and>
   (fst (Orders_list params cb) = Super c \<longrightarrow> \<not> is_function (super_params c)) \<and>
   (fst (Orders_cancel callee prefix i params cb) = Super c \<longrightarrow>
      \<not> is_function (super_params c))"
proof -
  have settles: "fst (and_then (errorHandler callee invalid_id cb) (\<lambda>r.
     and_then (errorHandler callee r Undefined) (\<lambda>_. rest))) \<noteq> Super c" for rest
    by (cases "is_function cb")
      (auto simp: invalid_no_callback invalid_callback is_function_def split: jsval.splits)
  have get: "\<not> is_function (super_params c)"
    if "fst (Orders_get callee prefix i params cb) = Super c"
    using that settles
    by (auto simp: Orders_get_def Let_def is_function_def split: if_splits)
  have lst: "\<not> is_function (super_params c)" if "fst (Orders_list params cb) = Super c"
    using that
    by (auto simp: Orders_list_def is_function_def split: if_splits)
  have cancel: "\<not> is_function (super_params c)"
    if "fst (Orders_cancel callee prefix i params cb) = Super c"
    using that settles
    by (auto simp: Orders_cancel_def Let_def is_function_def split: if_splits)
  from get lst cancel show ?thesis
    by (simp add: Orders_get_def Orders_list_def Orders_cancel_def Let_def)
qed

theorem Orders_shift_callback_witness:
  "is_function (Fn ''done'') \<and> startsWith ''ord_8wmqcHMN4U'' ''ord_'' \<and>
   Orders_get (\<lambda>f args. Undefined) ''ord_'' ''ord_8wmqcHMN4U'' (Fn ''done'') Undefined =
     (Super (SuperGet ''ord_8wmqcHMN4U'' Null (Fn ''done'')), []) \<and>
   \<not> is_function (super_params (SuperGet ''ord_8wmqcHMN4U'' Null (Fn ''done'')))"
  using Orders_shift_callback
    [of "Fn ''done''" "''ord_8wmqcHMN4U''" "''ord_''" "\<lambda>f args. Undefined" Undefined
      "SuperGet ''ord_8wmqcHMN4U'' Null (Fn ''done'')"]
  by (simp add: is_function_def startsWith_def)

text \<open>
  C5. The documented form \<open>get(id, callback)\<close> with an identifier that fails the check:
  the check hands the (absent) third argument to the error handler, so the promise is
  rejected as in the promise form and the callback is never invoked. The same callback in
  the third position is invoked with that error, and for an identifier with the prefix
  the callback in the second position is moved to the third. \<open>cancel\<close> behaves as \<open>get\<close>.
\<close>

theorem Orders_get_callback_in_params_never_called:
  "(\<forall>callee base.
      run base (Orders_get callee ''ord_'' ''foo'' (Fn ''cb'') Undefined) =
        (Rejected (ApiError invalid_id), []) \<and>
      called (snd (run base (Orders_get callee ''ord_'' ''foo'' (Fn ''cb'') Undefined))) = [] \<and>
      run base (Orders_get callee ''ord_'' ''foo'' Undefined Undefined) =
        (Rejected (ApiError invalid_id), []) \<and>
      called (snd (run base (Orders_get callee ''ord_'' ''foo'' Null (Fn ''cb'')))) =
        [(''cb'', [ApiError invalid_id])] \<and>
      Orders_get callee ''ord_'' ''ord_8wmqcHMN4U'' (Fn ''cb'') Undefined =
        (Super (SuperGet ''ord_8wmqcHMN4U'' Null (Fn ''cb'')), []) \<and>
      run base (Orders_cancel callee ''ord_'' ''foo'' (Fn ''cb'') Undefined) =
        (Rejected (ApiError invalid_id), []))"
  by (simp add: Orders_get_def Orders_cancel_def Let_def startsWith_def is_function_def
      errorHandler_def and_then_def run_def called_def)


section \<open>The base class: outcomes, errors and lists\<close>

lemma called_Sent: "called (Sent r # evs) = called evs"
  by (simp add: called_def)

lemma called_Called: "called (Called f args # evs) = (f, args) # called evs"
  by (simp add: called_def)

lemma called_Nil: "called [] = []"
  by (simp add: called_def)








lemma Orders_get_valid:
  "startsWith i prefix \<Longrightarrow>
   Orders_get callee prefix i params cb =
     (Super (SuperGet i (if is_function params then Null else params)
        (if is_function params then params else cb)), [])"
  by (simp add: Orders_get_def Let_def)


lemma Orders_cancel_valid:
  "startsWith i prefix \<Longrightarrow>
   Orders_cancel callee prefix i params cb =
     (Super (SuperDelete i (if is_function params then Null else params)
        (if is_function params then params else cb)), [])"
  by (simp add: Orders_cancel_def Let_def)

lemma Orders_list_shape:
  "Orders_list params cb =
     (Super (SuperList (if is_function params then Null else params)
        (if is_function params then params else cb)), [])"
  by (simp add: Orders_list_def)





lemma perform_non_2xx:
  "transport cfg req = Reply status body \<Longrightarrow> \<not> (200 \<le> status \<and> status < 300) \<Longrightarrow>
   perform cfg req decode cb =
     (Rejected (ApiError body), Sent req # snd (errorHandler (callbacks cfg) body cb))"
  by (auto simp: perform_def reject_with_def)

lemma perform_2xx:
  "transport cfg req = Reply status body \<Longrightarrow> 200 \<le> status \<Longrightarrow> status < 300 \<Longrightarrow>
   decode body = Some v \<Longrightarrow>
   perform cfg req decode cb =
     (Resolved v, Sent req # (case cb of Fn f \<Rightarrow> [Called f [Null, v]] | _ \<Rightarrow> []))"
  by (simp add: perform_def fulfil_def)

lemma Resource_non_2xx:
  assumes "\<And>req. transport cfg req = Reply status body"
    and "\<not> (200 \<le> status \<and> status < 300)"
  shows "fst (Resource cfg c) = Rejected (ApiError body)"
    and "super_cb c = Fn f \<Longrightarrow> called (snd (Resource cfg c)) = [(f, [ApiError body])]"
  using assms
  by (cases c; simp add: perform_non_2xx errorHandler_def called_Sent called_Called called_Nil)+

text \<open>
  C3. When the transport answers with a status outside 200..299, every operation of the
  base class, and \<open>Orders.get\<close> on top of it, fails with the typed error of the response
  body: the promise is rejected with it and a supplied callback (in either position, for
  \<open>Orders.get\<close>) receives it as its only argument. The message of that error is the body's
  \<open>detail\<close> when the body has one, and the generic message when it has none.
\<close>

theorem non_2xx_message_is_detail:
  assumes "\<And>req. transport cfg req = Reply status body"
    and "\<not> (200 \<le> status \<and> status < 300)"
  shows "\<exists>e.
    fst (Resource cfg c) = Rejected e \<and>
    (super_cb c = Fn f \<longrightarrow> called (snd (Resource cfg c)) = [(f, [e])]) \<and>
    (startsWith i prefix \<longrightarrow>
       fst (run (Resource cfg) (Orders_get (callbacks cfg) prefix i params cb)) = Rejected e \<and>
       (params = Fn f \<or> \<not> is_function params \<and> cb = Fn f \<longrightarrow>
          called (snd (run (Resource cfg) (Orders_get (callbacks cfg) prefix i params cb))) =
            [(f, [e])])) \<and>
    (body = Obj fs \<and> get_field fs ''detail'' = Some (Str x) \<longrightarrow> getMessage generic e = x) \<and>
    (body = Obj fs \<and> get_field fs ''detail'' = None \<longrightarrow> getMessage generic e = generic)"
proof -
  have base: "fst (Resource cfg c) = Rejected (ApiError body)" for c
    using assms by (rule Resource_non_2xx)
  have notified: "called (snd (Resource cfg c)) = [(f, [ApiError body])]"
    if "super_cb c = Fn f" for c
    using assms that by (rule Resource_non_2xx)
  have get: "fst (run (Resource cfg) (Orders_get (callbacks cfg) prefix i params cb)) =
      Rejected (ApiError body)" if "startsWith i prefix"
    using that by (simp add: Orders_get_valid run_Super base del: Resource.simps)
  have get_cb: "called (snd (run (Resource cfg) (Orders_get (callbacks cfg) prefix i params cb)))
      = [(f, [ApiError body])]"
    if "startsWith i prefix" and "params = Fn f \<or> \<not> is_function params \<and> cb = Fn f"
    using that
    by (auto simp: Orders_get_valid run_Super notified is_function_def simp del: Resource.simps)
  have msg: "getMessage generic (ApiError body) = x"
    if "body = Obj fs" and "get_field fs ''detail'' = Some (Str x)"
    using that by (simp add: getMessage_def)
  have dflt: "getMessage generic (ApiError body) = generic"
    if "body = Obj fs" and "get_field fs ''detail'' = None"
    using that by (simp add: getMessage_def)
  from base [of c] notified [of c] get get_cb msg dflt show ?thesis
    by (intro exI [of _ "ApiError body"]) blast
qed

theorem non_2xx_message_is_detail_witness:
  "\<exists>e. fst (Resource \<lparr>resource = ''methods'', model_name = ''Method'',
          model_new = Object_assign [(''resource'', Str ''method'')],
          transport = (\<lambda>req. Reply 500 (Obj [(''detail'', Str ''The method id is invalid'')])),
          callbacks = (\<lambda>f args. Undefined)\<rparr>
        (SuperGet ''foo'' Null (Fn ''done''))) = Rejected e \<and>
      getMessage ''Error'' e = ''The method id is invalid''"
  using non_2xx_message_is_detail
    [where cfg = "\<lparr>resource = ''methods'', model_name = ''Method'',
          model_new = Object_assign [(''resource'', Str ''method'')],
          transport = (\<lambda>req. Reply 500 (Obj [(''detail'', Str ''The method id is invalid'')])),
          callbacks = (\<lambda>f args. Undefined)\<rparr>"
      and status = 500 and body = "Obj [(''detail'', Str ''The method id is invalid'')]"
      and c = "SuperGet ''foo'' Null (Fn ''done'')" and f = "''done''"
      and fs = "[(''detail'', Str ''The method id is invalid'')]"
      and x = "''The method id is invalid''" and generic = "''Error''"
      and i = "''foo''" and prefix = "''ord_''" and params = Null and cb = "Fn ''done''"]
  by (auto simp: get_field_def simp del: Resource.simps)


lemma those_new_model:
  "those (map (new_model cfg) (map Obj items)) =
     Some (map (\<lambda>fs. Inst (model_name cfg) (model_new cfg (Some fs))) items)"
  by (induction items) (simp_all add: new_model_def)

lemma new_list_embedded:
  "embedded cfg (Obj fs) = Some (map Obj items) \<Longrightarrow>
   new_list cfg (Obj fs) =
     Some (ListOf (map (\<lambda>it. Inst (model_name cfg) (model_new cfg (Some it))) items)
       (field_or_undefined fs ''_links'') (field_or_undefined fs ''count''))"
  by (simp add: new_list_def those_new_model del: map_map)

lemma Resource_list_2xx:
  assumes "\<And>req. transport cfg req = Reply status (Obj fs)"
    and "200 \<le> status" and "status < 300"
    and "embedded cfg (Obj fs) = Some (map Obj items)"
  shows "fst (Resource cfg (SuperList params cb)) =
     Resolved (ListOf (map (\<lambda>it. Inst (model_name cfg) (model_new cfg (Some it))) items)
       (field_or_undefined fs ''_links'') (field_or_undefined fs ''count''))"
  using assms by (simp add: perform_2xx [where status = status] new_list_embedded)

text \<open>
  C6. When the transport answers a list request with a 2xx status and a body whose
  embedded array under the resource's key holds N objects, \<open>list\<close> (and its alias \<open>all\<close>)
  resolves with a List of N Models, the j-th built from the j-th object of the array; the
  links of the List are those of the body. For an empty collection (no item, and no
  \<open>next\<close> and \<open>previous\<close> link in the body) the List has length zero and neither link.
\<close>

theorem list_keeps_response_order:
  assumes "\<And>req. transport cfg req = Reply status (Obj fs)"
    and "200 \<le> status" and "status < 300"
    and "embedded cfg (Obj fs) = Some (map Obj items)"
  shows "\<exists>l.
    fst (run (Resource cfg) (Orders_list params cb)) = Resolved l \<and>
    fst (run (Resource cfg) (Orders_all params cb)) = Resolved l \<and>
    length (list_items l) = length items \<and>
    (\<forall>j < length items.
       list_items l ! j = Inst (model_name cfg) (model_new cfg (Some (items ! j)))) \<and>
    list_link l name = link_of (field_or_undefined fs ''_links'') name \<and>
    (items = [] \<and>
     link_of (field_or_undefined fs ''_links'') ''next'' = None \<and>
     link_of (field_or_undefined fs ''_links'') ''previous'' = None \<longrightarrow>
       length (list_items l) = 0 \<and> list_link l ''next'' = None \<and>
       list_link l ''previous'' = None)"
proof -
  let ?l = "ListOf (map (\<lambda>it. Inst (model_name cfg) (model_new cfg (Some it))) items)
       (field_or_undefined fs ''_links'') (field_or_undefined fs ''count'')"
  have "fst (Resource cfg (SuperList p c)) = Resolved ?l" for p c
    using assms by (rule Resource_list_2xx)
  then have res: "fst (run (Resource cfg) (Orders_list params cb)) = Resolved ?l"
    by (simp add: Orders_list_shape run_Super del: Resource.simps)
  then have all: "fst (run (Resource cfg) (Orders_all params cb)) = Resolved ?l"
    by (simp add: Orders_all_def)
  show ?thesis
    by (rule exI [of _ ?l]) (simp add: res all list_items_def list_link_def)
qed

theorem list_keeps_response_order_witness:
  "\<exists>l. fst (run (Resource \<lparr>resource = ''orders'', model_name = ''Order'',
          model_new = Object_assign [(''resource'', Str ''order'')],
          transport = (\<lambda>req. Reply 200 (Obj [(''_embedded'', Obj [(''orders'',
            Arr [Obj [(''id'', Str ''ord_1'')], Obj [(''id'', Str ''ord_2'')]])]),
            (''count'', Num 2)])),
          callbacks = (\<lambda>f args. Undefined)\<rparr>) (Orders_list Undefined Undefined)) = Resolved l \<and>
     list_items l =
       [Inst ''Order'' [(''resource'', Str ''order''), (''id'', Str ''ord_1'')],
        Inst ''Order'' [(''resource'', Str ''order''), (''id'', Str ''ord_2'')]]"
proof -
  from list_keeps_response_order
    [where cfg = "\<lparr>resource = ''orders'', model_name = ''Order'',
          model_new = Object_assign [(''resource'', Str ''order'')],
          transport = (\<lambda>req. Reply 200 (Obj [(''_embedded'', Obj [(''orders'',
            Arr [Obj [(''id'', Str ''ord_1'')], Obj [(''id'', Str ''ord_2'')]])]),
            (''count'', Num 2)])),
          callbacks = (\<lambda>f args. Undefined)\<rparr>"
      and status = 200
      and fs = "[(''_embedded'', Obj [(''orders'',
            Arr [Obj [(''id'', Str ''ord_1'')], Obj [(''id'', Str ''ord_2'')]])]),
            (''count'', Num 2)]"
      and items = "[[(''id'', Str ''ord_1'')], [(''id'', Str ''ord_2'')]]"
      and params = Undefined and cb = Undefined and name = "''next''"]
  obtain l where l: "fst (run (Resource \<lparr>resource = ''orders'', model_name = ''Order'',
          model_new = Object_assign [(''resource'', Str ''order'')],
          transport = (\<lambda>req. Reply 200 (Obj [(''_embedded'', Obj [(''orders'',
            Arr [Obj [(''id'', Str ''ord_1'')], Obj [(''id'', Str ''ord_2'')]])]),
            (''count'', Num 2)])),
          callbacks = (\<lambda>f args. Undefined)\<rparr>) (Orders_list Undefined Undefined)) = Resolved l"
    and len: "length (list_items l) = 2"
    and nth: "\<forall>j<2. list_items l ! j =
       Inst ''Order'' (Object_assign [(''resource'', Str ''order'')]
         (Some ([[(''id'', Str ''ord_1'')], [(''id'', Str ''ord_2'')]] ! j)))"
    by (auto simp: embedded_def get_field_def simp del: Resource.simps)
  from nth have "list_items l ! 0 =
      Inst ''Order'' [(''resource'', Str ''order''), (''id'', Str ''ord_1'')]"
    and "list_items l ! 1 = Inst ''Order'' [(''resource'', Str ''order''), (''id'', Str ''ord_2'')]"
    by (simp_all add: Object_assign_def set_fields_def)
  with len have "list_items l =
       [Inst ''Order'' [(''resource'', Str ''order''), (''id'', Str ''ord_1'')],
        Inst ''Order'' [(''resource'', Str ''order''), (''id'', Str ''ord_2'')]]"
    by (cases "list_items l"; cases "tl (list_items l)"; cases "tl (tl (list_items l))") auto
  with l show ?thesis by blast
qed

text \<open>
  C8. \<open>delete\<close> is \<open>cancel\<close>: on the same identifier, parameters and callback both make
  the same call of the base class, settle alike and invoke the callback alike, whatever
  the base class does. For an identifier with the prefix that call is the base class's
  delete; when the transport answers it with a 2xx status and an object, the promise
  resolves with the Model built from that object, not with a flag.
\<close>

theorem Orders_delete_is_cancel:
  "Orders_delete callee prefix i params cb = Orders_cancel callee prefix i params cb \<and>
   run base (Orders_delete callee prefix i params cb) =
     run base (Orders_cancel callee prefix i params cb) \<and>
   (startsWith i prefix \<longrightarrow>
      (\<exists>p c. Orders_delete callee prefix i params cb = (Super (SuperDelete i p c), []))) \<and>
   (startsWith i prefix \<and> (\<forall>req. transport cfg req = Reply status (Obj fs)) \<and>
    200 \<le> status \<and> status < 300 \<longrightarrow>
      fst (run (Resource cfg) (Orders_delete (callbacks cfg) prefix i params cb)) =
        Resolved (Inst (model_name cfg) (model_new cfg (Some fs))))"
proof -
  have model: "fst (Resource cfg (SuperDelete i p c)) =
      Resolved (Inst (model_name cfg) (model_new cfg (Some fs)))"
    if "\<forall>req. transport cfg req = Reply status (Obj fs)" and "200 \<le> status" and "status < 300"
    for p c
    using that by (simp add: perform_2xx [where status = status] new_model_def)
  then show ?thesis
    by (auto simp: Orders_delete_def Orders_cancel_valid run_Super simp del: Resource.simps)
qed

theorem Orders_delete_is_cancel_witness:
  "startsWith ''ord_8wmqcHMN4U'' ''ord_'' \<and>
   fst (run (Resource \<lparr>resource = ''orders'', model_name = ''Order'',
          model_new = Object_assign [(''resource'', Str ''order'')],
          transport = (\<lambda>req. Reply 200 (Obj [(''status'', Str ''canceled'')])),
          callbacks = (\<lambda>f args. Undefined)\<rparr>)
        (Orders_delete (\<lambda>f args. Undefined) ''ord_'' ''ord_8wmqcHMN4U'' Undefined Undefined)) =
     Resolved (Inst ''Order'' [(''resource'', Str ''order''), (''status'', Str ''canceled'')])"
  using Orders_delete_is_cancel
    [where cfg = "\<lparr>resource = ''orders'', model_name = ''Order'',
          model_new = Object_assign [(''resource'', Str ''order'')],
          transport = (\<lambda>req. Reply 200 (Obj [(''status'', Str ''canceled'')])),
          callbacks = (\<lambda>f args. Undefined)\<rparr>"
      and prefix = "''ord_''" and i = "''ord_8wmqcHMN4U''" and params = Undefined
      and cb = Undefined and status = 200 and fs = "[(''status'', Str ''canceled'')]"
      and callee = "\<lambda>f args. Undefined" and base = "\<lambda>c. (Resolved Null, [])"]
  by (auto simp: startsWith_def Object_assign_def set_fields_def simp del: Resource.simps)

text \<open>
  C7. The client made by the factory has the fixed HTTPS base URL of the API host, and its
  default headers have \<open>Authorization\<close>, derived from the configured credential,
  \<open>User-Agent\<close>, \<open>Accept-Encoding\<close> and \<open>Content-Type\<close>, the last being JSON.
\<close>

theorem createHttpClient_defaults:
  "baseURL (createHttpClient authorization userAgent acceptEncoding apiKey) =
     ''https://api.mollie.com:443/v2/'' \<and>
   startsWith (baseURL (createHttpClient authorization userAgent acceptEncoding apiKey))
     ''https://'' \<and>
   toHaveProperty (headers (createHttpClient authorization userAgent acceptEncoding apiKey))
     ''Authorization'' \<and>
   toHaveProperty (headers (createHttpClient authorization userAgent acceptEncoding apiKey))
     ''User-Agent'' \<and>
   toHaveProperty (headers (createHttpClient authorization userAgent acceptEncoding apiKey))
     ''Accept-Encoding'' \<and>
   toHaveProperty (headers (createHttpClient authorization userAgent acceptEncoding apiKey))
     ''Content-Type'' \<and>
   map_of (headers (createHttpClient authorization userAgent acceptEncoding apiKey))
     ''Authorization'' = Some (authorization apiKey) \<and>
   map_of (headers (createHttpClient authorization userAgent acceptEncoding apiKey))
     ''Content-Type'' = Some ''application/json''"
  by (simp add: createHttpClient_def toHaveProperty_def startsWith_def)

theorem createHttpClient_defaults_witness:
  "baseURL (createHttpClient (\<lambda>key. ''Bearer '' @ key) ''node'' ''gzip'' ''test'') =
     ''https://api.mollie.com:443/v2/'' \<and>
   map fst (headers (createHttpClient (\<lambda>key. ''Bearer '' @ key) ''node'' ''gzip'' ''test'')) =
     [''Authorization'', ''User-Agent'', ''Accept-Encoding'', ''Content-Type''] \<and>
   map_of (headers (createHttpClient (\<lambda>key. ''Bearer '' @ key) ''node'' ''gzip'' ''test''))
     ''Authorization'' = Some ''Bearer test''"
  using createHttpClient_defaults [of "\<lambda>key. ''Bearer '' @ key" "''node''" "''gzip''" "''test''"]
  by (simp add: createHttpClient_def)

end
